theory Spec2Isabelle
  imports Complex_Main
begin

section \<open>Data model of joints.py\<close>

text \<open>
  The module works on armature objects of the host scene graph. Only what the functions of
  joints.py read and write is modelled: the constraint collection of the armature's single
  pose bone, the direction vector of its single bone, the \<open>phobostype\<close> attribute, the
  object name and the string-keyed custom properties (\<open>joint['joint/type']\<close> and friends).

  Numbers are Python floats in the source; they are modelled as mathematical reals, so
  infinities and NaN are outside the model. The one place where the number format decides
  a result, the bounds the host keeps for a constraint, is modelled: see \<open>hostapi\<close>.
\<close>

record constraint =
  ctype :: string
  use_min_x :: bool
  use_min_y :: bool
  use_min_z :: bool
  use_max_x :: bool
  use_max_y :: bool
  use_max_z :: bool
  use_limit_x :: bool
  use_limit_y :: bool
  use_limit_z :: bool
  min_x :: real
  max_x :: real
  min_y :: real
  max_y :: real
  min_z :: real
  max_z :: real
  owner_space :: string

datatype pyval = PStr string | PFloat real | PBool bool

type_synonym vec = "real \<times> real \<times> real"

record joint =
  name :: string
  phobostype :: string
  constraints :: "constraint list"
  bone_vector :: vec
  props :: "string \<rightharpoonup> pyval"

text \<open>
  The part of the host session the functions touch: the interaction mode set by
  \<open>bpy.ops.object.mode_set\<close>, the name of the active object, the lines written by
  \<open>print\<close> and the messages handed to \<open>warnings.warn\<close>.
\<close>

record host =
  mode :: string
  active :: string
  printed :: "string list"
  warned :: "string list"

datatype error = AttributeError | TypeError | Exception string

datatype limits = Lim2 real real | Lim4 real real real real

definition bindE :: "error + 'a \<Rightarrow> ('a \<Rightarrow> error + 'b) \<Rightarrow> error + 'b" where
  "bindE m f = (case m of Inl e \<Rightarrow> Inl e | Inr x \<Rightarrow> f x)"

text \<open>Python's \<open>sum\<close> over a three-element list of booleans.\<close>

definition py_sum :: "bool \<times> bool \<times> bool \<Rightarrow> nat" where
  "py_sum t = (case t of (a, b, c) \<Rightarrow>
     (if a then 1 else 0) + (if b then 1 else 0) + (if c then 1 else 0))"

text \<open>
  \<open>mathutils.Vector.normalized\<close>: the vector scaled to unit length; the zero vector is
  returned unchanged.
\<close>

definition normalized :: "vec \<Rightarrow> vec" where
  "normalized v = (case v of (x, y, z) \<Rightarrow>
     (let n = sqrt (x * x + y * y + z * z)
      in if n = 0 then (0, 0, 0) else (x / n, y / n, z / n)))"

section \<open>deriveJointType\<close>

definition cloc_of :: "constraint \<Rightarrow> bool \<times> bool \<times> bool" where
  "cloc_of c = (use_min_x c \<and> min_x c = max_x c,
                use_min_y c \<and> min_y c = max_y c,
                use_min_z c \<and> min_z c = max_z c)"

definition crot_of :: "constraint \<Rightarrow> bool \<times> bool \<times> bool" where
  "crot_of c = (use_limit_x c \<and> (min_x c \<noteq> 0 \<or> max_x c \<noteq> 0),
                use_limit_y c \<and> (min_y c \<noteq> 0 \<or> max_y c \<noteq> 0),
                use_limit_z c \<and> (min_z c \<noteq> 0 \<or> max_z c \<noteq> 0))"

type_synonym scan = "(bool \<times> bool \<times> bool) option \<times> (bool \<times> bool \<times> bool) option \<times> constraint option"

text \<open>The loop over the bone's constraints (lines 54 to 63): state is (cloc, crot, limrot).\<close>

fun derive_loop :: "constraint list \<Rightarrow> scan \<Rightarrow> scan" where
  "derive_loop [] s = s"
| "derive_loop (c # cs) (cloc, crot, limrot) =
     derive_loop cs
       (if ctype c = ''LIMIT_LOCATION'' then (Some (cloc_of c), crot, limrot)
        else if ctype c = ''LIMIT_ROTATION'' then (cloc, Some (crot_of c), Some c)
        else (cloc, crot, limrot))"

text \<open>
  The decision table (lines 64 to 78). \<open>sum(crot)\<close> on a missing \<open>crot\<close> would be a
  TypeError; it is kept as an error branch.
\<close>

definition decide :: "scan \<Rightarrow> error + string" where
  "decide s = (case s of (cloc, crot, limrot) \<Rightarrow>
     (let ncloc = map_option py_sum cloc;
          ncrot = map_option (\<lambda>l. py_sum (use_limit_x l, use_limit_y l, use_limit_z l)) limrot
      in if cloc \<noteq> None then
           (if ncloc = Some 3 then
              (if ncrot = Some 3 then
                 (case crot of
                    None \<Rightarrow> Inl TypeError
                  | Some cr \<Rightarrow> if 0 < py_sum cr then Inr ''revolute'' else Inr ''fixed'')
               else if ncrot = Some 2 then Inr ''continuous''
               else Inr ''floating'')
            else if ncloc = Some 2 then Inr ''prismatic''
            else if ncloc = Some 1 then Inr ''planar''
            else Inr ''floating'')
         else Inr ''floating''))"

definition mismatch_warning :: "joint \<Rightarrow> string" where
  "mismatch_warning j = ''Type of joint '' @ name j @ '' does not match constraints!''"

definition changed_message :: "joint \<Rightarrow> string \<Rightarrow> string" where
  "changed_message j jtype =
     ''Changed type of joint'' @ [CHR 0x27] @ name j @ '' to '' @ jtype @ [CHR 0x27] @ ''.''"

definition deriveJointType ::
  "joint \<Rightarrow> bool \<Rightarrow> host \<Rightarrow> error + ((string \<times> (bool \<times> bool \<times> bool) option) \<times> joint \<times> host)" where
  "deriveJointType j adjust h =
     (let s = derive_loop (constraints j) (None, None, None);
          crot = fst (snd s)
      in bindE (decide s) (\<lambda>jtype.
           if props j ''joint/type'' \<noteq> None \<and> props j ''joint/type'' \<noteq> Some (PStr jtype) then
             (let h1 = h\<lparr>warned := warned h @ [mismatch_warning j]\<rparr>
              in if adjust then
                   Inr ((jtype, crot),
                        j\<lparr>props := (props j)(''joint/type'' \<mapsto> PStr jtype)\<rparr>,
                        h1\<lparr>printed := printed h1 @ [changed_message j jtype]\<rparr>)
                 else Inr ((jtype, crot), j, h1))
           else Inr ((jtype, crot), j, h)))"

section \<open>getJointConstraint and getJointConstraints\<close>

fun find_loop :: "constraint list \<Rightarrow> string \<Rightarrow> constraint option \<Rightarrow> constraint option" where
  "find_loop [] t con = con"
| "find_loop (c # cs) t con = find_loop cs t (if ctype c = t then Some c else con)"

definition getJointConstraint :: "joint \<Rightarrow> string \<Rightarrow> constraint option" where
  "getJointConstraint j t = find_loop (constraints j) t None"

definition freeloc_of :: "constraint \<Rightarrow> bool \<times> bool \<times> bool" where
  "freeloc_of c = (use_min_x c \<and> use_max_x c \<and> min_x c = max_x c,
                   use_min_y c \<and> use_max_y c \<and> min_y c = max_y c,
                   use_min_z c \<and> use_max_z c \<and> min_z c = max_z c)"

definition under_defined :: "joint \<Rightarrow> error" where
  "under_defined j =
     Exception (''JointTypeError: under-defined constraints in joint ('' @ name j @ '').'')"

text \<open>Lines 94 to 103: the branch for revolute and continuous joints.\<close>

definition rot_branch ::
  "joint \<Rightarrow> bool \<times> bool \<times> bool \<Rightarrow> error + (vec option \<times> limits option)" where
  "rot_branch j cr = (case cr of (r0, r1, r2) \<Rightarrow>
     (let c = getJointConstraint j ''LIMIT_ROTATION'';
          axis = Some (normalized (bone_vector j))
      in if r0 then
           (case c of None \<Rightarrow> Inl AttributeError
            | Some c \<Rightarrow> Inr (axis, Some (Lim2 (min_x c) (max_x c))))
         else if r1 then
           (case c of None \<Rightarrow> Inl AttributeError
            | Some c \<Rightarrow> Inr (axis, Some (Lim2 (min_y c) (max_y c))))
         else if r2 then
           (case c of None \<Rightarrow> Inl AttributeError
            | Some c \<Rightarrow> Inr (axis, Some (Lim2 (min_z c) (max_z c))))
         else Inr (axis, None)))"

text \<open>Lines 105 to 133: the branch that reads the translation constraint.\<close>

definition loc_branch ::
  "joint \<Rightarrow> string \<Rightarrow> error + (vec option \<times> limits option)" where
  "loc_branch j jt =
     (case getJointConstraint j ''LIMIT_LOCATION'' of
        None \<Rightarrow> Inl (under_defined j)
      | Some c \<Rightarrow>
          (case freeloc_of c of (f0, f1, f2) \<Rightarrow>
             if jt = ''prismatic'' then
               (if py_sum (f0, f1, f2) = 2 then
                  (let axis = Some (normalized (bone_vector j))
                   in if f0 then Inr (axis, Some (Lim2 (min_x c) (max_x c)))
                      else if f1 then Inr (axis, Some (Lim2 (min_y c) (max_y c)))
                      else if f2 then Inr (axis, Some (Lim2 (min_z c) (max_z c)))
                      else Inr (axis, None))
                else Inl (under_defined j))
             else if jt = ''planar'' then
               (if py_sum (f0, f1, f2) = 1 then
                  (let axis = ((if f0 then 1 else 0, if f1 then 1 else 0, if f2 then 1 else 0) :: vec)
                   in if fst axis \<noteq> 0 then
                        Inr (Some axis, Some (Lim4 (min_y c) (max_y c) (min_z c) (max_z c)))
                      else if fst (snd axis) \<noteq> 0 then
                        Inr (Some axis, Some (Lim4 (min_x c) (max_x c) (min_z c) (max_z c)))
                      else if snd (snd axis) \<noteq> 0 then
                        Inr (Some axis, Some (Lim4 (min_x c) (max_x c) (min_y c) (max_y c)))
                      else Inr (Some axis, None))
                else Inl (under_defined j))
             else Inr (None, None)))"

text \<open>
  The test \<open>jt in ['revolute', 'continuous'] and crot\<close> holds when the type is one of
  the two and \<open>crot\<close> is a list (a three-element list is never falsy); every other case
  takes the \<open>else\<close> branch.
\<close>

definition getJointConstraints ::
  "joint \<Rightarrow> host \<Rightarrow> error + ((vec option \<times> limits option) \<times> joint \<times> host)" where
  "getJointConstraints j h =
     bindE (deriveJointType j True h) (\<lambda>r. case r of ((jt, crot), j1, h1) \<Rightarrow>
       bindE
         (if jt \<noteq> ''floating'' \<and> jt \<noteq> ''fixed'' then
            (case crot of
               Some cr \<Rightarrow>
                 if jt = ''revolute'' \<or> jt = ''continuous'' then rot_branch j1 cr
                 else loc_branch j1 jt
             | None \<Rightarrow> loc_branch j1 jt)
          else Inr (None, None))
         (\<lambda>res. Inr (res, j1, h1)))"

section \<open>setJointConstraints\<close>

text \<open>
  Lines 147 and 148 remove every constraint met while iterating over the bone's constraint
  collection. The collection belongs to the host; its iterator has already moved past the
  current entry when the loop body runs, so each entry present when the loop starts is
  visited once and removed from what is left of the collection.
\<close>

definition clear_constraints :: "joint \<Rightarrow> joint" where
  "clear_constraints j =
     j\<lparr>constraints := foldl (\<lambda>cs c. remove1 c cs) (constraints j) (constraints j)\<rparr>"

text \<open>
  What the module relies on the host for when it builds constraints: the attribute values a
  newly added constraint starts with, and what the host keeps of a number assigned to a
  bound of a translation or of a rotation constraint (the host stores bounds in its own
  number format, so a bound can read back different from what was assigned). These are
  parameters of the model.
\<close>

record hostapi =
  new_constraint :: "string \<Rightarrow> constraint"
  keep_location :: "real \<Rightarrow> real"
  keep_rotation :: "real \<Rightarrow> real"

text \<open>
  \<open>bpy.ops.pose.constraint_add(type=t)\<close> appends a new constraint of type \<open>t\<close> to the
  bone of the active object, which the callers make the joint itself; \<open>nc\<close> gives the
  attribute values it starts with.
\<close>

definition constraint_add :: "(string \<Rightarrow> constraint) \<Rightarrow> string \<Rightarrow> joint \<Rightarrow> joint" where
  "constraint_add nc t j = j\<lparr>constraints := constraints j @ [(nc t)\<lparr>ctype := t\<rparr>]\<rparr>"

text \<open>The factory settings of the host for a new constraint: nothing active, all bounds 0.\<close>

definition host_default :: "string \<Rightarrow> constraint" where
  "host_default t =
     \<lparr>ctype = t,
      use_min_x = False, use_min_y = False, use_min_z = False,
      use_max_x = False, use_max_y = False, use_max_z = False,
      use_limit_x = False, use_limit_y = False, use_limit_z = False,
      min_x = 0, max_x = 0, min_y = 0, max_y = 0, min_z = 0, max_z = 0,
      owner_space = ''WORLD''\<rparr>"

text \<open>
  The host keeps a bound as a 32-bit binary float. \<open>single\<close> rounds a real to the nearest
  such float, ties to the even significand: 24 significant bits, least exponent -126, below
  which the spacing stays 2 to the -149. Magnitudes beyond the largest 32-bit float are not
  modelled; the bounds of a rotation constraint are first clamped to the range from -1000 to
  1000.
\<close>

definition round_even :: "real \<Rightarrow> int" where
  "round_even x =
     (let f = \<lfloor>x\<rfloor>; d = x - of_int f
      in if d < 1 / 2 then f else if 1 / 2 < d then f + 1 else if even f then f else f + 1)"

definition single :: "real \<Rightarrow> real" where
  "single x =
     (if x = 0 then 0
      else (let e = max \<lfloor>log 2 \<bar>x\<bar>\<rfloor> (- 126); q = 2 powr of_int (e - 23)
            in of_int (round_even (x / q)) * q))"

definition blender :: hostapi where
  "blender = \<lparr>new_constraint = host_default,
              keep_location = single,
              keep_rotation = (\<lambda>x. single (max (- 1000) (min 1000 x)))\<rparr>"


text \<open>
  \<open>c = getJointConstraint(joint, t)\<close> followed by attribute assignments on \<open>c\<close>: the
  assignments \<open>f\<close> change the last constraint of type \<open>t\<close> in place; on \<open>None\<close> the
  first assignment raises AttributeError.
\<close>

fun update_last :: "string \<Rightarrow> (constraint \<Rightarrow> constraint) \<Rightarrow> constraint list \<Rightarrow> constraint list" where
  "update_last t f [] = []"
| "update_last t f (c # cs) =
     (if ctype c = t \<and> find_loop cs t None = None then f c # cs
      else c # update_last t f cs)"

definition assign :: "string \<Rightarrow> (constraint \<Rightarrow> constraint) \<Rightarrow> joint \<Rightarrow> error + joint" where
  "assign t f j =
     (case getJointConstraint j t of
        None \<Rightarrow> Inl AttributeError
      | Some _ \<Rightarrow> Inr (j\<lparr>constraints := update_last t f (constraints j)\<rparr>))"

text \<open>
  The assignment blocks of the branches, in source order. \<open>kp\<close> is what the host keeps
  of the value assigned to a bound; the literal 0 is kept as it is.
\<close>

definition lock_location :: "constraint \<Rightarrow> constraint" where
  "lock_location c =
     c\<lparr>use_min_x := True, use_min_y := True, use_min_z := True,
       use_max_x := True, use_max_y := True, use_max_z := True\<rparr>"

definition loc_fixed :: "constraint \<Rightarrow> constraint" where
  "loc_fixed c = (lock_location c)\<lparr>owner_space := ''LOCAL''\<rparr>"

definition loc_prismatic :: "(real \<Rightarrow> real) \<Rightarrow> real \<Rightarrow> real \<Rightarrow> constraint \<Rightarrow> constraint" where
  "loc_prismatic kp lower upper c =
     (let c1 = lock_location c;
          c2 = (if lower = upper then c1\<lparr>use_min_y := False, use_max_y := False\<rparr>
                else c1\<lparr>min_y := kp lower, max_y := kp upper\<rparr>)
      in c2\<lparr>owner_space := ''LOCAL''\<rparr>)"

definition loc_planar :: "constraint \<Rightarrow> constraint" where
  "loc_planar c = c\<lparr>use_min_y := True, use_max_y := True, owner_space := ''LOCAL''\<rparr>"

definition rot_revolute :: "(real \<Rightarrow> real) \<Rightarrow> real \<Rightarrow> real \<Rightarrow> constraint \<Rightarrow> constraint" where
  "rot_revolute kp lower upper c =
     c\<lparr>use_limit_x := True, min_x := 0, max_x := 0,
       use_limit_y := True, min_y := kp lower, max_y := kp upper,
       use_limit_z := True, min_z := 0, max_z := 0,
       owner_space := ''LOCAL''\<rparr>"

definition rot_continuous :: "constraint \<Rightarrow> constraint" where
  "rot_continuous c =
     c\<lparr>use_limit_x := True, min_x := 0, max_x := 0,
       use_limit_z := True, min_z := 0, max_z := 0,
       owner_space := ''LOCAL''\<rparr>"

definition rot_fixed :: "constraint \<Rightarrow> constraint" where
  "rot_fixed c =
     c\<lparr>use_limit_x := True, min_x := 0, max_x := 0,
       use_limit_y := True, min_y := 0, max_y := 0,
       use_limit_z := True, min_z := 0, max_z := 0,
       owner_space := ''LOCAL''\<rparr>"

text \<open>Add a translation constraint and set it up, then the same for a rotation constraint.\<close>

definition install ::
  "(string \<Rightarrow> constraint) \<Rightarrow> (constraint \<Rightarrow> constraint) \<Rightarrow> (constraint \<Rightarrow> constraint) \<Rightarrow>
   joint \<Rightarrow> error + joint" where
  "install nc floc frot j =
     bindE (assign ''LIMIT_LOCATION'' floc (constraint_add nc ''LIMIT_LOCATION'' j)) (\<lambda>j1.
       assign ''LIMIT_ROTATION'' frot (constraint_add nc ''LIMIT_ROTATION'' j1))"

definition setJointConstraints ::
  "hostapi \<Rightarrow> joint \<Rightarrow> string \<Rightarrow> real \<Rightarrow> real \<Rightarrow> host \<Rightarrow> error + (joint \<times> host)" where
  "setJointConstraints api j jointtype lower upper h =
     (let h1 = h\<lparr>mode := ''POSE''\<rparr>;
          j1 = clear_constraints j
      in if phobostype j1 = ''link'' then
           bindE
             (if jointtype = ''revolute'' then
                bindE (install (new_constraint api) loc_fixed
                         (rot_revolute (keep_rotation api) lower upper) j1) (\<lambda>j2. Inr (j2, h1))
              else if jointtype = ''continuous'' then
                bindE (install (new_constraint api) loc_fixed rot_continuous j1) (\<lambda>j2. Inr (j2, h1))
              else if jointtype = ''prismatic'' then
                bindE (install (new_constraint api) (loc_prismatic (keep_location api) lower upper)
                         rot_fixed j1) (\<lambda>j2. Inr (j2, h1))
              else if jointtype = ''fixed'' then
                bindE (install (new_constraint api) loc_fixed rot_fixed j1) (\<lambda>j2. Inr (j2, h1))
              else if jointtype = ''floating'' then Inr (j1, h1)
              else if jointtype = ''planar'' then
                bindE (install (new_constraint api) loc_planar rot_fixed j1) (\<lambda>j2. Inr (j2, h1))
              else Inr (j1, h1\<lparr>printed := printed h1 @ [''Error: Unknown joint type'']\<rparr>))
             (\<lambda>r. case r of (j3, h3) \<Rightarrow>
                Inr (j3\<lparr>props := (props j3)(''joint/type'' \<mapsto> PStr jointtype)\<rparr>,
                     h3\<lparr>mode := ''OBJECT''\<rparr>))
         else Inr (j1, h1))"

section \<open>The two operators\<close>

text \<open>The operator's properties; \<open>passive\<close> is a reserved word here, hence \<open>op_passive\<close>.\<close>

record define_op =
  op_passive :: bool
  degrees :: bool
  joint_type :: string
  lower :: real
  upper :: real
  maxeffort :: real
  maxvelocity :: real

definition radians :: "real \<Rightarrow> real" where
  "radians d = d * pi / 180"

text \<open>The body of the loop of \<open>DefineJointConstraintsOperator.execute\<close> for one link.\<close>

definition define_step ::
  "hostapi \<Rightarrow> define_op \<Rightarrow> real \<Rightarrow> real \<Rightarrow> joint \<Rightarrow> host \<Rightarrow> error + (joint \<times> host)" where
  "define_step api op lo up link h =
     bindE (setJointConstraints api link (joint_type op) lo up (h\<lparr>active := name link\<rparr>))
       (\<lambda>r. case r of (l1, h1) \<Rightarrow>
          (let l2 = (if joint_type op \<noteq> ''fixed'' then
                       l1\<lparr>props := (props l1)(''joint/maxeffort'' \<mapsto> PFloat (maxeffort op),
                                               ''joint/maxvelocity'' \<mapsto> PFloat (maxvelocity op))\<rparr>
                     else l1);
               l3 = (if op_passive op then l2\<lparr>props := (props l2)(''joint/passive'' \<mapsto> PBool True)\<rparr>
                     else l2)
           in Inr (l3, h1)))"

fun define_loop ::
  "hostapi \<Rightarrow> define_op \<Rightarrow> real \<Rightarrow> real \<Rightarrow> joint list \<Rightarrow> host \<Rightarrow>
   error + (joint list \<times> host)" where
  "define_loop api op lo up [] h = Inr ([], h)"
| "define_loop api op lo up (link # links) h =
     bindE (define_step api op lo up link h) (\<lambda>r. case r of (l', h') \<Rightarrow>
       bindE (define_loop api op lo up links h') (\<lambda>r'. case r' of (ls', h'') \<Rightarrow>
         Inr (l' # ls', h'')))"

text \<open>
  \<open>DefineJointConstraintsOperator.execute\<close> on the selected objects; the result holds the
  selected objects after the run, in selection order.
\<close>

definition define_execute ::
  "hostapi \<Rightarrow> define_op \<Rightarrow> joint list \<Rightarrow> host \<Rightarrow> error + (joint list \<times> host)" where
  "define_execute api op selected h =
     (let lo = (if degrees op then radians (lower op) else lower op);
          up = (if degrees op then radians (upper op) else upper op)
      in define_loop api op lo up selected h)"

record motor_op =
  P :: real
  I :: real
  D :: real
  vmax :: real
  taumax :: real
  motortype :: string

text \<open>The body of the loop of \<open>AttachMotorOperator.execute\<close> for one selected object.\<close>

definition motor_step :: "motor_op \<Rightarrow> joint \<Rightarrow> joint" where
  "motor_step op j =
     (if phobostype j = ''link'' then
        (let j1 = (if motortype op = ''PID'' then
                     j\<lparr>props := (props j)(''motor/p'' \<mapsto> PFloat (P op),
                                          ''motor/i'' \<mapsto> PFloat (I op),
                                          ''motor/d'' \<mapsto> PFloat (D op))\<rparr>
                   else j)
         in j1\<lparr>props := (props j1)(''motor/maxSpeed'' \<mapsto> PFloat (vmax op * 2 * pi),
                                    ''motor/maxEffort'' \<mapsto> PFloat (taumax op),
                                    ''motor/type'' \<mapsto> PStr (motortype op))\<rparr>)
      else j)"

definition motor_execute :: "motor_op \<Rightarrow> joint list \<Rightarrow> joint list" where
  "motor_execute op selected = map (motor_step op) selected"

section \<open>Notions used in the statements\<close>

text \<open>A newly added constraint of type \<open>t\<close>, as \<open>constraint_add\<close> appends it.\<close>

definition fresh :: "(string \<Rightarrow> constraint) \<Rightarrow> string \<Rightarrow> constraint" where
  "fresh nc t = (nc t)\<lparr>ctype := t\<rparr>"

text \<open>The constraint collection each branch of \<open>setJointConstraints\<close> leaves on a link.\<close>

definition template :: "hostapi \<Rightarrow> string \<Rightarrow> real \<Rightarrow> real \<Rightarrow> constraint list" where
  "template api T lo up =
     (let l = fresh (new_constraint api) ''LIMIT_LOCATION'';
          r = fresh (new_constraint api) ''LIMIT_ROTATION''
      in if T = ''revolute'' then [loc_fixed l, rot_revolute (keep_rotation api) lo up r]
         else if T = ''continuous'' then [loc_fixed l, rot_continuous r]
         else if T = ''prismatic'' then [loc_prismatic (keep_location api) lo up l, rot_fixed r]
         else if T = ''fixed'' then [loc_fixed l, rot_fixed r]
         else if T = ''floating'' then []
         else if T = ''planar'' then [loc_planar l, rot_fixed r]
         else [])"

text \<open>The joint types \<open>setJointConstraints\<close> has a branch for.\<close>

definition known :: "string \<Rightarrow> bool" where
  "known T = (T = ''revolute'' \<or> T = ''continuous'' \<or> T = ''prismatic'' \<or> T = ''fixed''
              \<or> T = ''floating'' \<or> T = ''planar'')"

text \<open>\<open>setJointConstraints\<close> followed by \<open>deriveJointType\<close> on the resulting joint.\<close>

definition synth_classify ::
  "hostapi \<Rightarrow> joint \<Rightarrow> string \<Rightarrow> real \<Rightarrow> real \<Rightarrow> host \<Rightarrow>
   error + (string \<times> (bool \<times> bool \<times> bool) option)" where
  "synth_classify api j T lo up h =
     bindE (setJointConstraints api j T lo up h) (\<lambda>r.
       bindE (deriveJointType (fst r) False (snd r)) (\<lambda>d. Inr (fst d)))"

text \<open>\<open>setJointConstraints\<close> followed by \<open>getJointConstraints\<close> on the resulting joint.\<close>

definition synth_extract ::
  "hostapi \<Rightarrow> joint \<Rightarrow> string \<Rightarrow> real \<Rightarrow> real \<Rightarrow> host \<Rightarrow>
   error + (vec option \<times> limits option)" where
  "synth_extract api j T lo up h =
     bindE (setJointConstraints api j T lo up h) (\<lambda>r.
       bindE (getJointConstraints (fst r) (snd r)) (\<lambda>d. Inr (fst d)))"

text \<open>A link without constraints or metadata, whose bone points along Y with length 2.\<close>

definition link0 :: joint where
  "link0 = \<lparr>name = ''joint'', phobostype = ''link'', constraints = [],
            bone_vector = (0, 2, 0), props = Map.empty\<rparr>"

definition host0 :: host where
  "host0 = \<lparr>mode = ''OBJECT'', active = [], printed = [], warned = []\<rparr>"

text \<open>A link that already carries a constraint and a stored joint type.\<close>

definition link1 :: joint where
  "link1 = link0\<lparr>constraints := [host_default ''COPY_ROTATION''],
                  props := [''joint/type'' \<mapsto> PStr ''revolute'']\<rparr>"

text \<open>
  A translation constraint on which only the lower bound of X is switched on, with both X
  bounds at 0, and a link that carries nothing else.
\<close>

definition half_locked :: constraint where
  "half_locked = (host_default ''LIMIT_LOCATION'')\<lparr>use_min_x := True\<rparr>"

definition half_locked_link :: joint where
  "half_locked_link = link0\<lparr>constraints := [half_locked]\<rparr>"

text \<open>The links \<open>setJointConstraints\<close> makes of \<open>link0\<close> for two joint types.\<close>

definition revolute_link :: joint where
  "revolute_link = link0\<lparr>constraints := template blender ''revolute'' 0 (157/100),
                         props := [''joint/type'' \<mapsto> PStr ''revolute'']\<rparr>"

definition planar_link :: joint where
  "planar_link = link0\<lparr>constraints := template blender ''planar'' 0 0,
                       props := [''joint/type'' \<mapsto> PStr ''planar'']\<rparr>"

text \<open>
  The specification's notion of a free translation axis: an axis that is not fully locked,
  where fully locked means both bounds active and min = max.
\<close>

definition spec_free_axes :: "constraint \<Rightarrow> bool \<times> bool \<times> bool" where
  "spec_free_axes c = (case freeloc_of c of (f0, f1, f2) \<Rightarrow> (\<not> f0, \<not> f1, \<not> f2))"

text \<open>Operator inputs for a batch with joint type fixed, and for a PID motor.\<close>

definition fixed_op :: define_op where
  "fixed_op = \<lparr>op_passive = True, degrees = True, joint_type = ''fixed'', lower = 0, upper = 90,
               maxeffort = 5, maxvelocity = 7\<rparr>"

definition pid_op :: motor_op where
  "pid_op = \<lparr>P = 3, I = 4, D = 5, vmax = 1, taumax = 2, motortype = ''PID''\<rparr>"

text \<open>
  What the decision table makes of the template of a joint type: the type itself, except
  that a revolute joint whose two kept limits are 0 and a prismatic joint with different
  limits that are kept as the same number come out as fixed.
\<close>

definition classified_as :: "hostapi \<Rightarrow> string \<Rightarrow> real \<Rightarrow> real \<Rightarrow> string" where
  "classified_as api T lo up =
     (if T = ''revolute'' \<and> keep_rotation api lo = 0 \<and> keep_rotation api up = 0 then ''fixed''
      else if T = ''prismatic'' \<and> lo \<noteq> up \<and> keep_location api lo = keep_location api up
        then ''fixed''
      else T)"

section \<open>Basic facts\<close>

lemma bindE_Inr [simp]: "bindE (Inr x) f = f x"
  by (simp add: bindE_def)

lemma bindE_Inl [simp]: "bindE (Inl e) f = Inl e"
  by (simp add: bindE_def)

lemma foldl_remove1_prefix:
  "foldl (\<lambda>cs c. remove1 c cs) (xs @ zs) xs = zs"
  by (induction xs arbitrary: zs) simp_all

lemma clear_constraints_empty: "constraints (clear_constraints j) = []"
  using foldl_remove1_prefix [of "constraints j" "[]"]
  by (simp add: clear_constraints_def)

lemma clear_constraints_eq: "clear_constraints j = j\<lparr>constraints := []\<rparr>"
  using foldl_remove1_prefix [of "constraints j" "[]"]
  by (simp add: clear_constraints_def)

lemma install_empty:
  assumes "constraints j = []"
    and "\<And>c. ctype (floc c) = ctype c"
    and "\<And>c. ctype (frot c) = ctype c"
  shows "install nc floc frot j =
         Inr (j\<lparr>constraints := [floc (fresh nc ''LIMIT_LOCATION''), frot (fresh nc ''LIMIT_ROTATION'')]\<rparr>)"
  using assms
  by (simp add: install_def assign_def constraint_add_def getJointConstraint_def fresh_def)

lemma ctype_setters [simp]:
  "ctype (loc_fixed c) = ctype c"
  "ctype (loc_prismatic kp lo up c) = ctype c"
  "ctype (loc_planar c) = ctype c"
  "ctype (rot_revolute kp lo up c) = ctype c"
  "ctype (rot_continuous c) = ctype c"
  "ctype (rot_fixed c) = ctype c"
  by (simp_all add: loc_fixed_def lock_location_def loc_prismatic_def loc_planar_def
      rot_revolute_def rot_continuous_def rot_fixed_def Let_def)

text \<open>What \<open>setJointConstraints\<close> returns, on a link and on any other object.\<close>

lemma set_link:
  assumes "phobostype j = ''link''"
  shows "setJointConstraints api j T lo up h =
         Inr (j\<lparr>constraints := template api T lo up,
                props := (props j)(''joint/type'' \<mapsto> PStr T)\<rparr>,
              h\<lparr>mode := ''OBJECT'',
                printed := (if known T then printed h else printed h @ [''Error: Unknown joint type''])\<rparr>)"
  using assms
  by (simp add: setJointConstraints_def clear_constraints_eq install_empty template_def known_def Let_def)

lemma set_nonlink:
  assumes "phobostype j \<noteq> ''link''"
  shows "setJointConstraints api j T lo up h = Inr (j\<lparr>constraints := []\<rparr>, h\<lparr>mode := ''POSE''\<rparr>)"
  using assms
  by (simp add: setJointConstraints_def clear_constraints_eq Let_def)

text \<open>The scan of \<open>deriveJointType\<close> sees what \<open>getJointConstraint\<close> finds.\<close>

lemma find_loop_Some:
  "find_loop cs t (Some x) = (case find_loop cs t None of None \<Rightarrow> Some x | Some y \<Rightarrow> Some y)"
proof (induction cs arbitrary: x)
  case Nil
  show ?case by simp
next
  case (Cons c cs)
  show ?case
  proof (cases "ctype c = t")
    case True
    then show ?thesis by (simp add: Cons.IH [of c] split: option.splits)
  next
    case False
    then show ?thesis by (simp add: Cons.IH)
  qed
qed

lemma derive_loop_find:
  "derive_loop cs (a, b, c) =
     (case find_loop cs ''LIMIT_LOCATION'' None of None \<Rightarrow> a | Some l \<Rightarrow> Some (cloc_of l),
      case find_loop cs ''LIMIT_ROTATION'' None of None \<Rightarrow> b | Some r \<Rightarrow> Some (crot_of r),
      case find_loop cs ''LIMIT_ROTATION'' None of None \<Rightarrow> c | Some r \<Rightarrow> Some r)"
proof (induction cs arbitrary: a b c)
  case Nil
  show ?case by simp
next
  case (Cons x xs)
  show ?case
    by (simp add: Cons.IH find_loop_Some [of xs _ x] split: option.splits)
qed

lemma derive_loop_joint:
  "derive_loop (constraints j) (None, None, None) =
     (map_option cloc_of (getJointConstraint j ''LIMIT_LOCATION''),
      map_option crot_of (getJointConstraint j ''LIMIT_ROTATION''),
      getJointConstraint j ''LIMIT_ROTATION'')"
  by (simp add: derive_loop_find getJointConstraint_def split: option.splits)

text \<open>The rounding to 32-bit floats keeps 0 and the sign of what it rounds.\<close>

lemma single_zero: "single 0 = 0"
  by (simp add: single_def)

lemma round_even_ge_floor: "\<lfloor>y\<rfloor> \<le> round_even y"
  by (simp add: round_even_def Let_def)

lemma round_even_nonpos:
  assumes "y \<le> 0"
  shows "round_even y \<le> 0"
proof (cases "y - of_int \<lfloor>y\<rfloor> < 1 / 2")
  case True
  have "\<lfloor>y\<rfloor> \<le> 0" using assms by (simp add: floor_le_zero)
  then show ?thesis using True by (simp add: round_even_def Let_def)
next
  case False
  then have "of_int \<lfloor>y\<rfloor> \<le> y - 1 / 2" by simp
  then have "of_int \<lfloor>y\<rfloor> < (0::real)" using assms by linarith
  then have "\<lfloor>y\<rfloor> < 0" by simp
  then have "\<lfloor>y\<rfloor> + 1 \<le> 0" by arith
  then show ?thesis
    using round_even_ge_floor [of y] by (auto simp add: round_even_def Let_def)
qed

lemma single_nonpos:
  assumes "x \<le> 0"
  shows "single x \<le> 0"
proof (cases "x = 0")
  case True
  then show ?thesis by (simp add: single_def)
next
  case False
  let ?q = "2 powr of_int (max \<lfloor>log 2 \<bar>x\<bar>\<rfloor> (- 126) - 23) :: real"
  have q: "0 < ?q" by simp
  have "x / ?q \<le> 0" using assms q by (simp add: divide_nonpos_pos)
  then have "round_even (x / ?q) \<le> 0" by (rule round_even_nonpos)
  then have "of_int (round_even (x / ?q)) * ?q \<le> 0"
    using q by (simp add: mult_le_0_iff)
  then show ?thesis using False by (simp add: single_def Let_def)
qed

lemma single_pos:
  assumes "1 / 2 ^ 20 \<le> x"
  shows "0 < single x"
proof -
  have xp: "0 < x"
    using assms by (rule less_le_trans [rotated]) simp
  let ?e' = "\<lfloor>log 2 \<bar>x\<bar>\<rfloor>"
  let ?q = "2 powr of_int (max ?e' (- 126) - 23) :: real"
  have q: "0 < ?q" by simp
  have qx: "?q \<le> x"
  proof (cases "- 126 \<le> ?e'")
    case True
    have m: "max ?e' (- 126) = ?e'" using True by (rule max_absorb1)
    have "?q = 2 powr (of_int ?e' - 23)" unfolding m by simp
    also have "\<dots> \<le> 2 powr (of_int ?e')" by (rule powr_mono) simp_all
    also have "\<dots> \<le> 2 powr (log 2 \<bar>x\<bar>)" by (rule powr_mono) simp_all
    also have "\<dots> = x" using xp by simp
    finally show ?thesis .
  next
    case False
    have m: "max ?e' (- 126) = - 126" using False by (intro max_absorb2) arith
    have "?q = 2 powr (- 149)" unfolding m by simp
    also have "\<dots> \<le> 2 powr (- 20)" by (rule powr_mono) simp_all
    also have "\<dots> = 1 / 2 ^ 20" by (simp add: powr_minus_divide)
    also have "\<dots> \<le> x" by (rule assms)
    finally show ?thesis .
  qed
  have "1 \<le> x / ?q" using qx q by (simp add: le_divide_eq)
  then have "1 \<le> \<lfloor>x / ?q\<rfloor>" by (simp add: le_floor_iff)
  then have "1 \<le> round_even (x / ?q)"
    using round_even_ge_floor [of "x / ?q"] by linarith
  then have "0 < (of_int (round_even (x / ?q)) :: real)" by simp
  then have "0 < of_int (round_even (x / ?q)) * ?q" using q by simp
  then show ?thesis using xp by (simp add: single_def Let_def)
qed

lemma blender_new [simp]: "new_constraint blender = host_default"
  by (simp add: blender_def)

lemma blender_keeps_zero [simp]: "keep_rotation blender 0 = 0" "keep_location blender 0 = 0"
  by (simp_all add: blender_def single_zero)

lemma blender_keep_rotation_pos:
  assumes "1 / 2 ^ 20 \<le> x" and "x \<le> 1000"
  shows "0 < keep_rotation blender x"
proof -
  have "0 \<le> x" using assms(1) by (rule order_trans [rotated]) simp
  then have c: "max (- 1000) (min 1000 x) = x" using assms(2) by simp
  show ?thesis
    using single_pos [OF assms(1)] by (simp add: blender_def c)
qed

lemma blender_keep_location_sign:
  "1 / 2 ^ 20 \<le> x \<Longrightarrow> 0 < keep_location blender x"
  "x \<le> 0 \<Longrightarrow> keep_location blender x \<le> 0"
  by (simp_all add: blender_def single_pos single_nonpos)

text \<open>Counting flags, the decision table, and the templates of the branches.\<close>

lemma py_sum_3: "(py_sum (a, b, c) = 3) = (a \<and> b \<and> c)"
  by (cases a; cases b; cases c) (simp_all add: py_sum_def)

lemma py_sum_2: "(py_sum (a, b, c) = 2) = ((a \<and> b \<and> \<not> c) \<or> (a \<and> \<not> b \<and> c) \<or> (\<not> a \<and> b \<and> c))"
  by (cases a; cases b; cases c) (simp_all add: py_sum_def)

lemma py_sum_1: "(py_sum (a, b, c) = 1) = ((a \<and> \<not> b \<and> \<not> c) \<or> (\<not> a \<and> b \<and> \<not> c) \<or> (\<not> a \<and> \<not> b \<and> c))"
  by (cases a; cases b; cases c) (simp_all add: py_sum_def)

lemma py_sum_pos: "(0 < py_sum (a, b, c)) = (a \<or> b \<or> c)"
  by (cases a; cases b; cases c) (simp_all add: py_sum_def)

lemma py_sum_Suc0: "(py_sum (a, b, c) = Suc 0) = ((a \<and> \<not> b \<and> \<not> c) \<or> (\<not> a \<and> b \<and> \<not> c) \<or> (\<not> a \<and> \<not> b \<and> c))"
  using py_sum_1 [of a b c] by simp

lemmas py_sum_simps = py_sum_3 py_sum_2 py_sum_1 py_sum_Suc0 py_sum_pos

lemma decide_None: "decide (None, crot, limrot) = Inr ''floating''"
  by (simp add: decide_def)

lemma decide_Some:
  "decide (Some cl, crot, limrot) =
     (if py_sum cl = 3 then
        (case limrot of
           None \<Rightarrow> Inr ''floating''
         | Some l \<Rightarrow>
             if py_sum (use_limit_x l, use_limit_y l, use_limit_z l) = 3 then
               (case crot of
                  None \<Rightarrow> Inl TypeError
                | Some cr \<Rightarrow> if 0 < py_sum cr then Inr ''revolute'' else Inr ''fixed'')
             else if py_sum (use_limit_x l, use_limit_y l, use_limit_z l) = 2
               then Inr ''continuous''
             else Inr ''floating'')
      else if py_sum cl = 2 then Inr ''prismatic''
      else if py_sum cl = 1 then Inr ''planar''
      else Inr ''floating'')"
proof -
  obtain a b c where cl: "cl = (a, b, c)"
    by (cases cl) auto
  have ne: "Some cl \<noteq> None" by simp
  show ?thesis
    unfolding decide_def
    by (cases limrot)
      (simp_all only: ne Let_def prod.case option.case option.map option.distinct option.inject
        if_True if_False not_False_eq_True simp_thms)
qed

lemma tmpl_revolute: "template api ''revolute'' lo up =
   [loc_fixed (fresh (new_constraint api) ''LIMIT_LOCATION''),
    rot_revolute (keep_rotation api) lo up (fresh (new_constraint api) ''LIMIT_ROTATION'')]"
  by (simp add: template_def Let_def)

lemma tmpl_continuous: "template api ''continuous'' lo up =
   [loc_fixed (fresh (new_constraint api) ''LIMIT_LOCATION''), rot_continuous (fresh (new_constraint api) ''LIMIT_ROTATION'')]"
  by (simp add: template_def Let_def)

lemma tmpl_prismatic: "template api ''prismatic'' lo up =
   [loc_prismatic (keep_location api) lo up (fresh (new_constraint api) ''LIMIT_LOCATION''),
    rot_fixed (fresh (new_constraint api) ''LIMIT_ROTATION'')]"
  by (simp add: template_def Let_def)

lemma tmpl_fixed: "template api ''fixed'' lo up =
   [loc_fixed (fresh (new_constraint api) ''LIMIT_LOCATION''), rot_fixed (fresh (new_constraint api) ''LIMIT_ROTATION'')]"
  by (simp add: template_def Let_def)

lemma tmpl_planar: "template api ''planar'' lo up =
   [loc_planar (fresh (new_constraint api) ''LIMIT_LOCATION''), rot_fixed (fresh (new_constraint api) ''LIMIT_ROTATION'')]"
  by (simp add: template_def Let_def)

lemma ctype_fresh [simp]: "ctype (fresh nc t) = t"
  by (simp add: fresh_def)

lemma scan_pair:
  assumes "ctype l = ''LIMIT_LOCATION''" and "ctype r = ''LIMIT_ROTATION''"
  shows "derive_loop [l, r] (None, None, None) = (Some (cloc_of l), Some (crot_of r), Some r)"
  using assms by simp

lemma find_pair:
  assumes "ctype l = ''LIMIT_LOCATION''" and "ctype r = ''LIMIT_ROTATION''"
  shows "find_loop [l, r] ''LIMIT_LOCATION'' None = Some l"
    and "find_loop [l, r] ''LIMIT_ROTATION'' None = Some r"
  using assms by simp_all

lemma link0_link: "phobostype link0 = ''link''"
  by (simp add: link0_def)

lemma deriveJointType_agree:
  assumes "decide (derive_loop (constraints j) (None, None, None)) = Inr T"
    and "props j ''joint/type'' = Some (PStr T) \<or> props j ''joint/type'' = None"
  shows "deriveJointType j adjust h =
         Inr ((T, fst (snd (derive_loop (constraints j) (None, None, None)))), j, h)"
  using assms by (auto simp add: deriveJointType_def Let_def)

lemma cloc_loc_fixed:
  "cloc_of (loc_fixed c) = (min_x c = max_x c, min_y c = max_y c, min_z c = max_z c)"
  by (simp add: cloc_of_def loc_fixed_def lock_location_def)

lemma cloc_loc_prismatic:
  "cloc_of (loc_prismatic kp lo up c) =
     (min_x c = max_x c, lo \<noteq> up \<and> kp lo = kp up, min_z c = max_z c)"
  by (simp add: cloc_of_def loc_prismatic_def lock_location_def Let_def)

lemma cloc_loc_planar:
  "cloc_of (loc_planar c) =
     (use_min_x c \<and> min_x c = max_x c, min_y c = max_y c, use_min_z c \<and> min_z c = max_z c)"
  by (simp add: cloc_of_def loc_planar_def)

lemma crot_rot_revolute:
  "crot_of (rot_revolute kp lo up c) = (False, kp lo \<noteq> 0 \<or> kp up \<noteq> 0, False)"
  by (simp add: crot_of_def rot_revolute_def)

lemma crot_rot_continuous:
  "crot_of (rot_continuous c) = (False, use_limit_y c \<and> (min_y c \<noteq> 0 \<or> max_y c \<noteq> 0), False)"
  by (simp add: crot_of_def rot_continuous_def)

lemma crot_rot_fixed: "crot_of (rot_fixed c) = (False, False, False)"
  by (simp add: crot_of_def rot_fixed_def)

lemma use_limit_rot_revolute:
  "(use_limit_x (rot_revolute kp lo up c), use_limit_y (rot_revolute kp lo up c),
    use_limit_z (rot_revolute kp lo up c)) = (True, True, True)"
  by (simp add: rot_revolute_def)

lemma use_limit_rot_continuous:
  "(use_limit_x (rot_continuous c), use_limit_y (rot_continuous c),
    use_limit_z (rot_continuous c)) = (True, use_limit_y c, True)"
  by (simp add: rot_continuous_def)

lemma use_limit_rot_fixed:
  "(use_limit_x (rot_fixed c), use_limit_y (rot_fixed c), use_limit_z (rot_fixed c))
     = (True, True, True)"
  by (simp add: rot_fixed_def)

lemma min_max_fresh [simp]:
  "min_x (fresh nc t) = min_x (nc t)" "max_x (fresh nc t) = max_x (nc t)"
  "min_y (fresh nc t) = min_y (nc t)" "max_y (fresh nc t) = max_y (nc t)"
  "min_z (fresh nc t) = min_z (nc t)" "max_z (fresh nc t) = max_z (nc t)"
  "use_limit_y (fresh nc t) = use_limit_y (nc t)"
  "use_min_x (fresh nc t) = use_min_x (nc t)" "use_min_z (fresh nc t) = use_min_z (nc t)"
  "use_max_x (fresh nc t) = use_max_x (nc t)" "use_max_z (fresh nc t) = use_max_z (nc t)"
  by (simp_all add: fresh_def)

text \<open>What a successful \<open>deriveJointType\<close> tells about the joint.\<close>

lemma normalized_link0: "normalized (bone_vector link0) = (0, 1, 0)"
proof -
  have "sqrt (0 * 0 + 2 * 2 + 0 * 0) = (2::real)"
    using real_sqrt_abs2 [of "2::real"] by simp
  then show ?thesis by (simp add: link0_def normalized_def)
qed

lemma deriveJointType_result:
  assumes "deriveJointType j adjust h = Inr ((jt, crot), j1, h1)"
  shows "decide (derive_loop (constraints j) (None, None, None)) = Inr jt"
    and "crot = map_option crot_of (getJointConstraint j ''LIMIT_ROTATION'')"
    and "constraints j1 = constraints j"
    and "bone_vector j1 = bone_vector j"
    and "name j1 = name j"
proof -
  obtain t where t: "decide (derive_loop (constraints j) (None, None, None)) = Inr t"
    using assms by (cases "decide (derive_loop (constraints j) (None, None, None))")
      (simp_all add: deriveJointType_def Let_def)
  have r: "jt = t \<and> crot = fst (snd (derive_loop (constraints j) (None, None, None)))
           \<and> constraints j1 = constraints j \<and> bone_vector j1 = bone_vector j \<and> name j1 = name j"
    using assms unfolding deriveJointType_def Let_def t bindE_Inr
    by (auto split: if_splits)
  show "decide (derive_loop (constraints j) (None, None, None)) = Inr jt"
    using t r by simp
  show "crot = map_option crot_of (getJointConstraint j ''LIMIT_ROTATION'')"
    using r by (simp add: derive_loop_joint)
  show "constraints j1 = constraints j" "bone_vector j1 = bone_vector j" "name j1 = name j"
    using r by simp_all
qed

lemma getJointConstraint_cong:
  "constraints j1 = constraints j \<Longrightarrow> getJointConstraint j1 t = getJointConstraint j t"
  by (simp add: getJointConstraint_def)

lemma decide_joint:
  "decide (derive_loop (constraints j) (None, None, None)) =
     decide (map_option cloc_of (getJointConstraint j ''LIMIT_LOCATION''),
             map_option crot_of (getJointConstraint j ''LIMIT_ROTATION''),
             getJointConstraint j ''LIMIT_ROTATION'')"
  by (simp add: derive_loop_joint)

lemma decide_needs_location:
  assumes "decide (map_option cloc_of gl, cr, lr) = Inr jt" and "jt \<noteq> ''floating''"
  shows "\<exists>l. gl = Some l"
  using assms by (cases gl) (simp_all add: decide_None)

lemma decide_rotational:
  assumes "decide (Some cl, map_option crot_of gr, gr) = Inr jt"
    and "jt = ''revolute'' \<or> jt = ''continuous''"
  shows "\<exists>r. gr = Some r \<and> (jt = ''revolute'' \<longrightarrow> 0 < py_sum (crot_of r))"
proof (cases gr)
  case None
  with assms show ?thesis
    by (auto simp add: decide_Some split: if_splits)
next
  case (Some r)
  with assms show ?thesis
    by (auto simp add: decide_Some split: if_splits)
qed

lemma decide_planar:
  assumes "decide (Some cl, cr, lr) = Inr ''planar''"
  shows "py_sum cl = 1"
  using assms by (cases lr; cases cr) (auto simp add: decide_Some split: if_splits)

section \<open>Synthesis: idempotence and the unknown joint type\<close>

text \<open>
  C3: a run of \<open>setJointConstraints\<close> returns normally. On a link the constraints the bone
  had are gone and the bone holds exactly the constraints of the branch for the joint type
  (none for floating and for an unknown type), and \<open>joint/type\<close> is the type given; on any
  other object the bone is left without constraints and the metadata is untouched. The
  constraints the object had before have no influence on the joint returned, and running
  \<open>setJointConstraints\<close> a second time with the same arguments on the joint returned gives
  that same joint again.
\<close>

theorem setJointConstraints_idempotent:
  "\<exists>j1 h1. setJointConstraints api j T lo up h = Inr (j1, h1)
      \<and> constraints j1 = (if phobostype j = ''link'' then template api T lo up else [])
      \<and> props j1 = (if phobostype j = ''link'' then (props j)(''joint/type'' \<mapsto> PStr T)
                     else props j)
      \<and> name j1 = name j \<and> phobostype j1 = phobostype j \<and> bone_vector j1 = bone_vector j
      \<and> (\<forall>cs. \<exists>h'. setJointConstraints api (j\<lparr>constraints := cs\<rparr>) T lo up h = Inr (j1, h'))
      \<and> (\<exists>h2. setJointConstraints api j1 T lo up h1 = Inr (j1, h2))"
proof (cases "phobostype j = ''link''")
  case True
  then show ?thesis
    by (simp add: set_link)
next
  case False
  then show ?thesis
    by (simp add: set_nonlink)
qed

theorem setJointConstraints_idempotent_witness:
  "\<exists>j1 h1. setJointConstraints blender link1 ''fixed'' 0 0 host0 = Inr (j1, h1)
      \<and> constraints link1 = [host_default ''COPY_ROTATION'']
      \<and> constraints j1 = [loc_fixed (fresh host_default ''LIMIT_LOCATION''),
                           rot_fixed (fresh host_default ''LIMIT_ROTATION'')]
      \<and> props j1 ''joint/type'' = Some (PStr ''fixed'')
      \<and> (\<exists>h2. setJointConstraints blender j1 ''fixed'' 0 0 h1 = Inr (j1, h2))"
proof -
  have a: "phobostype link1 = ''link''" by (simp add: link1_def link0_def)
  have b: "constraints link1 = [host_default ''COPY_ROTATION'']" by (simp add: link1_def)
  show ?thesis
    using setJointConstraints_idempotent [of blender link1 "''fixed''" 0 0 host0] a b
    by (auto simp add: tmpl_fixed)
qed

text \<open>
  C9: with a joint type that is none of revolute, continuous, prismatic, fixed, floating
  and planar, \<open>setJointConstraints\<close> returns normally (no exception), the bone holds no
  constraint afterwards, and on a link the only output is the line
  "Error: Unknown joint type".
\<close>

theorem unknown_type_installs_nothing:
  assumes "\<not> known T"
  shows "\<exists>j1 h1. setJointConstraints api j T lo up h = Inr (j1, h1)
           \<and> constraints j1 = []
           \<and> warned h1 = warned h
           \<and> printed h1 = (if phobostype j = ''link''
                            then printed h @ [''Error: Unknown joint type''] else printed h)"
proof (cases "phobostype j = ''link''")
  case True
  with assms show ?thesis
    by (simp add: set_link template_def known_def)
next
  case False
  then show ?thesis
    by (simp add: set_nonlink)
qed

theorem unknown_type_installs_nothing_witness:
  "\<exists>j1 h1. setJointConstraints blender link0 ''hinge'' 0 1 host0 = Inr (j1, h1)
           \<and> constraints j1 = []
           \<and> warned h1 = []
           \<and> printed h1 = [''Error: Unknown joint type'']"
  using unknown_type_installs_nothing [of "''hinge''" blender link0 0 1 host0]
  by (simp add: known_def link0_def host0_def)

text \<open>
  C10: on a link, an unknown joint type still changes the link: the bone's constraints are
  gone and the stored \<open>joint/type\<close> is the unknown type string, so a link that had a
  constraint or another stored type is not what it was before the call.
\<close>

theorem unknown_type_mutates_link:
  assumes "phobostype j = ''link''" and "\<not> known T"
  shows "\<exists>j1 h1. setJointConstraints api j T lo up h = Inr (j1, h1)
           \<and> constraints j1 = []
           \<and> props j1 ''joint/type'' = Some (PStr T)
           \<and> (constraints j \<noteq> [] \<or> props j ''joint/type'' \<noteq> Some (PStr T) \<longrightarrow> j1 \<noteq> j)"
proof -
  let ?j1 = "j\<lparr>constraints := template api T lo up, props := (props j)(''joint/type'' \<mapsto> PStr T)\<rparr>"
  have tmpl: "template api T lo up = []"
    using assms(2) by (simp add: template_def known_def)
  have c: "constraints ?j1 = []" using tmpl by simp
  have p: "props ?j1 ''joint/type'' = Some (PStr T)" by simp
  have ne: "constraints j \<noteq> [] \<or> props j ''joint/type'' \<noteq> Some (PStr T) \<longrightarrow> ?j1 \<noteq> j"
    using c p by metis
  show ?thesis
    using set_link [OF assms(1), of api T lo up h] c p ne by blast
qed

theorem unknown_type_mutates_link_witness:
  "\<exists>j1 h1. setJointConstraints blender link1 ''hinge'' 0 1 host0 = Inr (j1, h1)
           \<and> constraints j1 = []
           \<and> props j1 ''joint/type'' = Some (PStr ''hinge'')
           \<and> j1 \<noteq> link1"
proof -
  have a: "phobostype link1 = ''link''" by (simp add: link1_def link0_def)
  have b: "\<not> known ''hinge''" by (simp add: known_def)
  have c: "constraints link1 \<noteq> []" by (simp add: link1_def)
  show ?thesis
    using unknown_type_mutates_link [OF a b, of blender 0 1 host0] c by blast
qed

section \<open>Synthesis followed by classification\<close>

lemma decide_template:
  assumes "T = ''revolute'' \<or> T = ''continuous'' \<or> T = ''prismatic'' \<or> T = ''fixed''"
    and "min_x (new_constraint api ''LIMIT_LOCATION'') = max_x (new_constraint api ''LIMIT_LOCATION'')"
    and "min_y (new_constraint api ''LIMIT_LOCATION'') = max_y (new_constraint api ''LIMIT_LOCATION'')"
    and "min_z (new_constraint api ''LIMIT_LOCATION'') = max_z (new_constraint api ''LIMIT_LOCATION'')"
    and "\<not> use_limit_y (new_constraint api ''LIMIT_ROTATION'')"
  shows "decide (derive_loop (template api T lo up) (None, None, None))
           = Inr (classified_as api T lo up)"
proof -
  consider (rev) "T = ''revolute''" | (con) "T = ''continuous''"
    | (pri) "T = ''prismatic''" | (fxd) "T = ''fixed''"
    using assms(1) by blast
  then show ?thesis
  proof cases
    case rev
    with assms show ?thesis
      by (simp add: classified_as_def tmpl_revolute scan_pair decide_Some cloc_loc_fixed
          crot_rot_revolute use_limit_rot_revolute py_sum_simps)
  next
    case con
    with assms show ?thesis
      by (simp add: classified_as_def tmpl_continuous scan_pair decide_Some cloc_loc_fixed
          crot_rot_continuous use_limit_rot_continuous py_sum_simps)
  next
    case pri
    with assms show ?thesis
      by (simp add: classified_as_def tmpl_prismatic scan_pair decide_Some cloc_loc_prismatic
          crot_rot_fixed use_limit_rot_fixed py_sum_simps)
  next
    case fxd
    with assms show ?thesis
      by (simp add: classified_as_def tmpl_fixed scan_pair decide_Some cloc_loc_fixed
          crot_rot_fixed use_limit_rot_fixed py_sum_simps)
  qed
qed

lemma blender_defaults:
  "min_x (new_constraint blender ''LIMIT_LOCATION'') = max_x (new_constraint blender ''LIMIT_LOCATION'')"
  "min_y (new_constraint blender ''LIMIT_LOCATION'') = max_y (new_constraint blender ''LIMIT_LOCATION'')"
  "min_z (new_constraint blender ''LIMIT_LOCATION'') = max_z (new_constraint blender ''LIMIT_LOCATION'')"
  "\<not> use_limit_y (new_constraint blender ''LIMIT_ROTATION'')"
  by (simp_all add: host_default_def)

lemma decide_template_blender:
  assumes "T = ''revolute'' \<or> T = ''continuous'' \<or> T = ''prismatic'' \<or> T = ''fixed''"
  shows "decide (derive_loop (template blender T lo up) (None, None, None))
           = Inr (classified_as blender T lo up)"
  by (rule decide_template [OF assms blender_defaults])

text \<open>
  C1, as stated, fails: synthesizing a revolute joint with lower = upper = 0 (which
  satisfies lower <= upper) gives a link that \<open>deriveJointType\<close> classifies as fixed.
\<close>

theorem revolute_zero_range_is_fixed:
  "synth_classify blender link0 ''revolute'' 0 0 host0 = Inr (''fixed'', Some (False, False, False))"
proof -
  let ?j = "link0\<lparr>constraints := template blender ''revolute'' 0 0,
                  props := (props link0)(''joint/type'' \<mapsto> PStr ''revolute'')\<rparr>"
  have st: "setJointConstraints blender link0 ''revolute'' 0 0 host0 = Inr (?j, host0)"
    by (simp add: set_link [OF link0_link] known_def host0_def)
  have ca: "classified_as blender ''revolute'' 0 0 = ''fixed''"
    by (simp add: classified_as_def)
  have dec: "decide (derive_loop (constraints ?j) (None, None, None)) = Inr ''fixed''"
    using decide_template_blender [of "''revolute''" 0 0] by (simp add: ca)
  have sc: "fst (snd (derive_loop (constraints ?j) (None, None, None))) = Some (False, False, False)"
    by (simp add: tmpl_revolute scan_pair crot_rot_revolute)
  have r: "deriveJointType ?j False host0 =
      Inr ((''fixed'', Some (False, False, False)), ?j,
           host0\<lparr>warned := warned host0 @ [mismatch_warning ?j]\<rparr>)"
    unfolding deriveJointType_def Let_def dec sc bindE_Inr by simp
  show ?thesis
    unfolding synth_classify_def st bindE_Inr fst_conv snd_conv r by simp
qed

text \<open>
  C1, amended: on a link, for each of revolute, continuous, prismatic and fixed and all
  lower <= upper, \<open>setJointConstraints\<close> followed by \<open>deriveJointType\<close> yields the
  synthesized type, with two exceptions that come out as fixed: revolute when the host
  keeps both limits as 0 (lower = upper = 0 among them), and prismatic with lower different
  from upper when the host keeps the two as the same number. What a newly added constraint
  starts with is the host's: a new translation constraint is taken to have equal lower and
  upper bounds on each axis, a new rotation constraint to have its Y limit off.
\<close>

theorem synthesis_then_classification:
  assumes "phobostype j = ''link''"
    and "T = ''revolute'' \<or> T = ''continuous'' \<or> T = ''prismatic'' \<or> T = ''fixed''"
    and "lo \<le> up"
    and "min_x (new_constraint api ''LIMIT_LOCATION'') = max_x (new_constraint api ''LIMIT_LOCATION'')"
    and "min_y (new_constraint api ''LIMIT_LOCATION'') = max_y (new_constraint api ''LIMIT_LOCATION'')"
    and "min_z (new_constraint api ''LIMIT_LOCATION'') = max_z (new_constraint api ''LIMIT_LOCATION'')"
    and "\<not> use_limit_y (new_constraint api ''LIMIT_ROTATION'')"
  shows "\<exists>crot. synth_classify api j T lo up h =
           Inr (if T = ''revolute'' \<and> keep_rotation api lo = 0 \<and> keep_rotation api up = 0
                  then ''fixed''
                else if T = ''prismatic'' \<and> lo \<noteq> up
                        \<and> keep_location api lo = keep_location api up
                  then ''fixed''
                else T, crot)"
proof -
  let ?j1 = "j\<lparr>constraints := template api T lo up, props := (props j)(''joint/type'' \<mapsto> PStr T)\<rparr>"
  let ?h1 = "h\<lparr>mode := ''OBJECT'',
               printed := if known T then printed h
                          else printed h @ [''Error: Unknown joint type'']\<rparr>"
  have d: "decide (derive_loop (constraints ?j1) (None, None, None))
             = Inr (classified_as api T lo up)"
    using decide_template [OF assms(2) assms(4) assms(5) assms(6) assms(7)] by simp
  obtain r where r: "deriveJointType ?j1 False ?h1 = Inr r"
    and f: "fst (fst r) = classified_as api T lo up"
    unfolding deriveJointType_def Let_def d bindE_Inr
    by (cases "props ?j1 ''joint/type'' \<noteq> None
               \<and> props ?j1 ''joint/type'' \<noteq> Some (PStr (classified_as api T lo up))") simp_all
  have "synth_classify api j T lo up h = Inr (fst r)"
    unfolding synth_classify_def set_link [OF assms(1)] bindE_Inr fst_conv snd_conv r by simp
  then have "synth_classify api j T lo up h = Inr (classified_as api T lo up, snd (fst r))"
    using f by (metis prod.collapse)
  then show ?thesis
    unfolding classified_as_def by blast
qed

theorem synthesis_then_classification_witness:
  "\<exists>crot. synth_classify blender link0 ''revolute'' 0 (157/100) host0 = Inr (''revolute'', crot)"
proof -
  have a: "(0::real) \<le> 157/100" by simp
  have k: "keep_rotation blender (157/100) \<noteq> 0"
    using blender_keep_rotation_pos [of "157/100"] by simp
  show ?thesis
    using synthesis_then_classification [OF link0_link _ a blender_defaults,
        of "''revolute''" host0] k
    by simp
qed

section \<open>Classification of a half-bounded axis\<close>

text \<open>
  C4: the claim asks for both bounds to be active before an axis counts as locked. On a
  translation constraint whose X axis has min = max with only the lower bound active,
  \<open>deriveJointType\<close> counts X as locked and answers planar, while
  \<open>getJointConstraints\<close>, which does check both bounds, then finds no locked axis and
  raises.
\<close>

theorem half_bounded_axis_counted_locked:
  "use_min_x half_locked \<and> \<not> use_max_x half_locked \<and> min_x half_locked = max_x half_locked
   \<and> cloc_of half_locked = (True, False, False)
   \<and> deriveJointType half_locked_link False host0 = Inr ((''planar'', None), half_locked_link, host0)
   \<and> getJointConstraints half_locked_link host0
       = Inl (Exception ''JointTypeError: under-defined constraints in joint (joint).'')"
proof -
  have f: "use_min_x half_locked \<and> \<not> use_max_x half_locked \<and> min_x half_locked = max_x half_locked"
    by (simp add: half_locked_def host_default_def)
  have cl: "cloc_of half_locked = (True, False, False)"
    by (simp add: cloc_of_def half_locked_def host_default_def)
  have fl: "freeloc_of half_locked = (False, False, False)"
    by (simp add: freeloc_of_def half_locked_def host_default_def)
  have ct: "ctype half_locked = ''LIMIT_LOCATION''"
    by (simp add: half_locked_def host_default_def)
  have cs: "constraints half_locked_link = [half_locked]"
    by (simp add: half_locked_link_def)
  have pr: "props half_locked_link ''joint/type'' = None"
    by (simp add: half_locked_link_def link0_def)
  have nm: "name half_locked_link = ''joint''"
    by (simp add: half_locked_link_def link0_def)
  have s: "derive_loop (constraints half_locked_link) (None, None, None)
             = (Some (True, False, False), None, None)"
    by (simp add: cs ct cl)
  have d: "decide (derive_loop (constraints half_locked_link) (None, None, None)) = Inr ''planar''"
    by (simp add: s decide_Some py_sum_simps)
  have dj: "deriveJointType half_locked_link adjust host0
              = Inr ((''planar'', None), half_locked_link, host0)" for adjust
    using deriveJointType_agree [OF d, of adjust host0] pr by (simp add: s)
  have g: "getJointConstraint half_locked_link ''LIMIT_LOCATION'' = Some half_locked"
    by (simp add: getJointConstraint_def cs ct)
  have lb: "loc_branch half_locked_link ''planar'' = Inl (under_defined half_locked_link)"
    by (simp add: loc_branch_def g fl py_sum_simps)
  have gj: "getJointConstraints half_locked_link host0
       = Inl (Exception ''JointTypeError: under-defined constraints in joint (joint).'')"
    by (simp add: getJointConstraints_def dj lb under_defined_def nm)
  show ?thesis using f cl dj gj by simp
qed

section \<open>Extraction of axis and limits\<close>

text \<open>
  The limits the prismatic branch returns come from an axis flagged in \<open>freeloc\<close>, so
  their two components are always equal.
\<close>

lemma prismatic_branch_limits_degenerate:
  assumes "loc_branch j ''prismatic'' = Inr (ax, Some (Lim2 a b))"
  shows "a = b"
proof (cases "getJointConstraint j ''LIMIT_LOCATION''")
  case None
  with assms show ?thesis by (simp add: loc_branch_def)
next
  case (Some c)
  obtain f0 f1 f2 where f: "freeloc_of c = (f0, f1, f2)"
    by (cases "freeloc_of c") auto
  have e: "f0 \<longrightarrow> min_x c = max_x c" "f1 \<longrightarrow> min_y c = max_y c" "f2 \<longrightarrow> min_z c = max_z c"
    using f by (auto simp add: freeloc_of_def)
  show ?thesis
    using assms e unfolding loc_branch_def Some option.case f prod.case
    by (auto simp add: Let_def split: if_splits)
qed

text \<open>
  C2: after \<open>setJointConstraints(joint, 'prismatic', -0.1, 0.1)\<close> the claim expects the
  limits (-0.1, 0.1). \<open>getJointConstraints\<close> returns the normalized bone vector as axis,
  but takes the limits from the first axis flagged in \<open>freeloc\<close>, which is a locked axis
  (X, whose bounds are equal), so the pair returned is (0, 0).
\<close>

theorem prismatic_limits_of_locked_axis:
  "synth_extract blender link0 ''prismatic'' (- (1/10)) (1/10) host0
     = Inr (Some (0, 1, 0), Some (Lim2 0 0))"
proof -
  let ?l = "loc_prismatic (keep_location blender) (- (1/10)) (1/10)
              (fresh host_default ''LIMIT_LOCATION'')"
  have kn: "keep_location blender (- (1/10)) \<noteq> keep_location blender (1/10)"
    using blender_keep_location_sign(1) [of "1/10"] blender_keep_location_sign(2) [of "- (1/10)"]
    by simp
  have ca: "classified_as blender ''prismatic'' (- (1/10)) (1/10) = ''prismatic''"
    using kn by (simp add: classified_as_def)
  let ?j = "link0\<lparr>constraints := template blender ''prismatic'' (- (1/10)) (1/10),
                  props := (props link0)(''joint/type'' \<mapsto> PStr ''prismatic'')\<rparr>"
  have st: "setJointConstraints blender link0 ''prismatic'' (- (1/10)) (1/10) host0
              = Inr (?j, host0)"
    by (simp add: set_link [OF link0_link] known_def host0_def)
  have dec: "decide (derive_loop (constraints ?j) (None, None, None)) = Inr ''prismatic''"
    using decide_template_blender [of "''prismatic''" "- (1/10)" "1/10"] by (simp add: ca)
  have dj: "deriveJointType ?j True host0
      = Inr ((''prismatic'', fst (snd (derive_loop (constraints ?j) (None, None, None)))), ?j, host0)"
    using deriveJointType_agree [OF dec, of True host0] by simp
  have gl: "getJointConstraint ?j ''LIMIT_LOCATION'' = Some ?l"
    by (simp add: getJointConstraint_def tmpl_prismatic)
  have fl: "freeloc_of ?l = (True, False, True)"
    using kn
    by (simp add: freeloc_of_def loc_prismatic_def lock_location_def fresh_def host_default_def
        Let_def)
  have mm: "min_x ?l = 0" "max_x ?l = 0"
    by (simp_all add: loc_prismatic_def lock_location_def fresh_def host_default_def Let_def)
  have lb: "loc_branch ?j ''prismatic'' = Inr (Some (0, 1, 0), Some (Lim2 0 0))"
    unfolding loc_branch_def gl option.case fl prod.case
    by (simp add: py_sum_simps mm normalized_link0)
  have gj: "getJointConstraints ?j host0 = Inr ((Some (0, 1, 0), Some (Lim2 0 0)), ?j, host0)"
    unfolding getJointConstraints_def dj bindE_Inr prod.case
    by (cases "fst (snd (derive_loop (constraints ?j) (None, None, None)))") (simp_all add: lb)
  show ?thesis
    unfolding synth_extract_def st bindE_Inr fst_conv snd_conv gj by simp
qed

text \<open>
  C5, as stated, fails: a link synthesized as continuous is classified continuous with no
  rotation flag set, and \<open>getJointConstraints\<close> does not fail on it; it returns the axis
  and no limits.
\<close>

theorem continuous_axis_without_limits:
  "synth_classify blender link0 ''continuous'' 0 0 host0
     = Inr (''continuous'', Some (False, False, False))
   \<and> synth_extract blender link0 ''continuous'' 0 0 host0 = Inr (Some (0, 1, 0), None)"
proof -
  let ?l = "loc_fixed (fresh host_default ''LIMIT_LOCATION'')"
  let ?r = "rot_continuous (fresh host_default ''LIMIT_ROTATION'')"
  let ?j = "link0\<lparr>constraints := template blender ''continuous'' 0 0,
                  props := (props link0)(''joint/type'' \<mapsto> PStr ''continuous'')\<rparr>"
  let ?h = "host0"
  have st: "setJointConstraints blender link0 ''continuous'' 0 0 host0 = Inr (?j, ?h)"
    by (simp add: set_link [OF link0_link] known_def host0_def)
  have dec: "decide (derive_loop (constraints ?j) (None, None, None)) = Inr ''continuous''"
    using decide_template_blender [of "''continuous''" 0 0] by (simp add: classified_as_def)
  have cr: "crot_of ?r = (False, False, False)"
    by (simp add: crot_rot_continuous fresh_def host_default_def)
  have sc: "fst (snd (derive_loop (constraints ?j) (None, None, None))) = Some (False, False, False)"
    by (simp add: tmpl_continuous scan_pair cr)
  have dj: "deriveJointType ?j adjust ?h = Inr ((''continuous'', Some (False, False, False)), ?j, ?h)"
    for adjust
    using deriveJointType_agree [OF dec, of adjust ?h] sc by simp
  have gr: "getJointConstraint ?j ''LIMIT_ROTATION'' = Some ?r"
    by (simp add: getJointConstraint_def tmpl_continuous)
  have bv: "normalized (bone_vector ?j) = (0, 1, 0)"
    using normalized_link0 by simp
  have rb: "rot_branch ?j (False, False, False) = Inr (Some (0, 1, 0), None)"
    by (simp add: rot_branch_def normalized_link0 Let_def)
  have gj: "getJointConstraints ?j ?h = Inr ((Some (0, 1, 0), None), ?j, ?h)"
    by (simp add: getJointConstraints_def dj rb)
  show ?thesis
    by (simp add: synth_classify_def synth_extract_def st dj gj)
qed

text \<open>
  C5, amended: for every joint classified as revolute or continuous,
  \<open>getJointConstraints\<close> returns normally; the axis is the normalized bone vector and the
  limits are the (min, max) pair of the first flagged rotation axis in the order X, Y, Z.
  With no flag set the limits are absent although the axis is present; for a revolute joint
  some flag is always set.
\<close>

theorem rotational_extraction:
  assumes "deriveJointType j True h = Inr ((jt, crot), j1, h1)"
    and "jt = ''revolute'' \<or> jt = ''continuous''"
  shows "\<exists>r. getJointConstraint j ''LIMIT_ROTATION'' = Some r
           \<and> crot = Some (crot_of r)
           \<and> getJointConstraints j h =
               Inr ((Some (normalized (bone_vector j)),
                     if fst (crot_of r) then Some (Lim2 (min_x r) (max_x r))
                     else if fst (snd (crot_of r)) then Some (Lim2 (min_y r) (max_y r))
                     else if snd (snd (crot_of r)) then Some (Lim2 (min_z r) (max_z r))
                     else None), j1, h1)
           \<and> (jt = ''revolute'' \<longrightarrow> crot_of r \<noteq> (False, False, False))"
proof -
  note res = deriveJointType_result [OF assms(1)]
  have nf: "jt \<noteq> ''floating''" "jt \<noteq> ''fixed''"
    using assms(2) by auto
  have d: "decide (map_option cloc_of (getJointConstraint j ''LIMIT_LOCATION''),
             map_option crot_of (getJointConstraint j ''LIMIT_ROTATION''),
             getJointConstraint j ''LIMIT_ROTATION'') = Inr jt"
    using res(1) by (simp add: decide_joint)
  obtain l where l: "getJointConstraint j ''LIMIT_LOCATION'' = Some l"
    using decide_needs_location [OF d nf(1)] by blast
  obtain r where r: "getJointConstraint j ''LIMIT_ROTATION'' = Some r"
    and rv: "jt = ''revolute'' \<longrightarrow> 0 < py_sum (crot_of r)"
    using decide_rotational [OF d [unfolded l option.map] assms(2)] by blast
  have cr: "crot = Some (crot_of r)"
    using res(2) r by simp
  have g1: "getJointConstraint j1 ''LIMIT_ROTATION'' = Some r"
    using getJointConstraint_cong [OF res(3)] r by simp
  obtain r0 r1 r2 where tr: "crot_of r = (r0, r1, r2)"
    by (cases "crot_of r") auto
  have rb: "rot_branch j1 (r0, r1, r2) =
      Inr (Some (normalized (bone_vector j)),
           if r0 then Some (Lim2 (min_x r) (max_x r))
           else if r1 then Some (Lim2 (min_y r) (max_y r))
           else if r2 then Some (Lim2 (min_z r) (max_z r))
           else None)"
    by (simp add: rot_branch_def g1 res(4) Let_def)
  have gj: "getJointConstraints j h = bindE (rot_branch j1 (r0, r1, r2)) (\<lambda>res. Inr (res, j1, h1))"
    unfolding getJointConstraints_def assms(1) cr tr bindE_Inr
    using assms(2) nf by simp
  have nz: "jt = ''revolute'' \<longrightarrow> crot_of r \<noteq> (False, False, False)"
    using rv by (auto simp add: tr py_sum_simps)
  show ?thesis
    using r cr nz by (simp add: gj rb tr)
qed

theorem rotational_extraction_witness:
  "getJointConstraints revolute_link host0
     = Inr ((Some (0, 1, 0), Some (Lim2 0 (keep_rotation blender (157/100)))),
            revolute_link, host0)"
proof -
  let ?l = "loc_fixed (fresh host_default ''LIMIT_LOCATION'')"
  let ?r = "rot_revolute (keep_rotation blender) 0 (157/100) (fresh host_default ''LIMIT_ROTATION'')"
  have k: "keep_rotation blender (157/100) \<noteq> 0"
    using blender_keep_rotation_pos [of "157/100"] by simp
  have cs: "constraints revolute_link = [?l, ?r]"
    by (simp add: revolute_link_def tmpl_revolute)
  have pr: "props revolute_link ''joint/type'' = Some (PStr ''revolute'')"
    by (simp add: revolute_link_def)
  have bv: "normalized (bone_vector revolute_link) = (0, 1, 0)"
    using normalized_link0 by (simp add: revolute_link_def)
  have dec: "decide (derive_loop (constraints revolute_link) (None, None, None)) = Inr ''revolute''"
    using decide_template_blender [of "''revolute''" 0 "157/100"] k
    by (simp add: revolute_link_def classified_as_def)
  have dj: "deriveJointType revolute_link True host0
      = Inr ((''revolute'', fst (snd (derive_loop (constraints revolute_link) (None, None, None)))),
             revolute_link, host0)"
    using deriveJointType_agree [OF dec, of True host0] pr by simp
  have gr: "getJointConstraint revolute_link ''LIMIT_ROTATION'' = Some ?r"
    by (simp add: getJointConstraint_def cs)
  have cr: "crot_of ?r = (False, True, False)"
    using k by (simp add: crot_rot_revolute)
  have mm: "min_y ?r = 0" "max_y ?r = keep_rotation blender (157/100)"
    by (simp_all add: rot_revolute_def)
  show ?thesis
    using rotational_extraction [OF dj] gr
    by (simp add: cr mm bv)
qed

text \<open>The planar link: its classification, its translation constraint and the flags.\<close>

lemma planar_link_facts:
  "deriveJointType planar_link True host0 = Inr ((''planar'', Some (False, False, False)), planar_link, host0)"
  "getJointConstraint planar_link ''LIMIT_LOCATION'' = Some (loc_planar (fresh host_default ''LIMIT_LOCATION''))"
  "freeloc_of (loc_planar (fresh host_default ''LIMIT_LOCATION'')) = (False, True, False)"
proof -
  let ?l = "loc_planar (fresh host_default ''LIMIT_LOCATION'')"
  let ?r = "rot_fixed (fresh host_default ''LIMIT_ROTATION'')"
  have cs: "constraints planar_link = [?l, ?r]"
    by (simp add: planar_link_def tmpl_planar)
  have cl: "cloc_of ?l = (False, True, False)"
    by (simp add: cloc_loc_planar fresh_def host_default_def)
  have sc: "derive_loop (constraints planar_link) (None, None, None)
      = (Some (False, True, False), Some (False, False, False), Some ?r)"
    by (simp add: cs scan_pair cl crot_rot_fixed)
  have dec: "decide (derive_loop (constraints planar_link) (None, None, None)) = Inr ''planar''"
    by (simp add: sc decide_Some py_sum_simps)
  have pr: "props planar_link ''joint/type'' = Some (PStr ''planar'')"
    by (simp add: planar_link_def)
  show "deriveJointType planar_link True host0
      = Inr ((''planar'', Some (False, False, False)), planar_link, host0)"
    using deriveJointType_agree [OF dec, of True host0] pr by (simp add: sc)
  show "getJointConstraint planar_link ''LIMIT_LOCATION'' = Some ?l"
    by (simp add: getJointConstraint_def cs)
  show "freeloc_of ?l = (False, True, False)"
    by (simp add: freeloc_of_def loc_planar_def fresh_def host_default_def)
qed

text \<open>
  C6, as stated, fails: the link synthesized as planar has two free translation axes (X and
  Z; only Y is fully locked), yet \<open>getJointConstraints\<close> does not raise, and the axis it
  returns is the unit vector along Y, the locked axis.
\<close>

theorem planar_axis_is_the_locked_one:
  "synth_extract blender link0 ''planar'' 0 0 host0
     = Inr (Some (0, 1, 0), Some (Lim4 0 0 0 0))
   \<and> getJointConstraint planar_link ''LIMIT_LOCATION''
       = Some (loc_planar (fresh host_default ''LIMIT_LOCATION''))
   \<and> spec_free_axes (loc_planar (fresh host_default ''LIMIT_LOCATION'')) = (True, False, True)"
proof -
  let ?l = "loc_planar (fresh host_default ''LIMIT_LOCATION'')"
  have pl: "link0\<lparr>constraints := template blender ''planar'' 0 0,
                  props := (props link0)(''joint/type'' \<mapsto> PStr ''planar'')\<rparr> = planar_link"
    by (simp add: planar_link_def link0_def)
  have kn: "known ''planar''" by (simp add: known_def)
  have h0: "host0\<lparr>mode := ''OBJECT'', printed := printed host0\<rparr> = host0"
    by (simp add: host0_def)
  have st: "setJointConstraints blender link0 ''planar'' 0 0 host0 = Inr (planar_link, host0)"
    unfolding set_link [OF link0_link] pl using kn h0 by simp
  have mm: "min_x ?l = 0" "max_x ?l = 0" "min_z ?l = 0" "max_z ?l = 0"
    by (simp_all add: loc_planar_def fresh_def host_default_def)
  have lb: "loc_branch planar_link ''planar'' = Inr (Some (0, 1, 0), Some (Lim4 0 0 0 0))"
    unfolding loc_branch_def planar_link_facts(2) option.case planar_link_facts(3) prod.case
    by (simp add: py_sum_simps mm)
  have gj: "getJointConstraints planar_link host0
     = Inr ((Some (0, 1, 0), Some (Lim4 0 0 0 0)), planar_link, host0)"
    unfolding getJointConstraints_def planar_link_facts(1) bindE_Inr prod.case
    by (simp add: lb)
  have sf: "spec_free_axes ?l = (True, False, True)"
    by (simp add: spec_free_axes_def planar_link_facts(3))
  show ?thesis
    unfolding synth_extract_def st bindE_Inr fst_conv snd_conv gj
    using planar_link_facts(2) sf by simp
qed

text \<open>
  C6, amended: for every joint classified as planar, \<open>getJointConstraints\<close> requires
  exactly one fully locked translation axis (both bounds active and min = max) and otherwise
  raises the under-defined-constraints error; on success the axis is the unit vector along
  that locked axis and the limits are the (min, max) pairs of the other two axes: X locked
  gives (minY, maxY, minZ, maxZ), Y locked (minX, maxX, minZ, maxZ), Z locked
  (minX, maxX, minY, maxY).
\<close>

theorem planar_extraction:
  assumes "deriveJointType j True h = Inr ((''planar'', crot), j1, h1)"
  shows "\<exists>c. getJointConstraint j ''LIMIT_LOCATION'' = Some c
           \<and> getJointConstraints j h =
               (if py_sum (freeloc_of c) \<noteq> 1 then Inl (under_defined j)
                else if fst (freeloc_of c) then
                  Inr ((Some (1, 0, 0), Some (Lim4 (min_y c) (max_y c) (min_z c) (max_z c))), j1, h1)
                else if fst (snd (freeloc_of c)) then
                  Inr ((Some (0, 1, 0), Some (Lim4 (min_x c) (max_x c) (min_z c) (max_z c))), j1, h1)
                else
                  Inr ((Some (0, 0, 1), Some (Lim4 (min_x c) (max_x c) (min_y c) (max_y c))), j1, h1))"
proof -
  note res = deriveJointType_result [OF assms]
  have d: "decide (map_option cloc_of (getJointConstraint j ''LIMIT_LOCATION''),
             map_option crot_of (getJointConstraint j ''LIMIT_ROTATION''),
             getJointConstraint j ''LIMIT_ROTATION'') = Inr ''planar''"
    using res(1) by (simp add: decide_joint)
  have nf: "''planar'' \<noteq> ''floating''" by simp
  obtain c where c: "getJointConstraint j ''LIMIT_LOCATION'' = Some c"
    using decide_needs_location [OF d nf] by blast
  have c1: "getJointConstraint j1 ''LIMIT_LOCATION'' = Some c"
    using getJointConstraint_cong [OF res(3)] c by simp
  obtain f0 f1 f2 where f: "freeloc_of c = (f0, f1, f2)"
    by (cases "freeloc_of c") auto
  have ud: "under_defined j1 = under_defined j"
    by (simp add: under_defined_def res(5))
  have lb: "loc_branch j1 ''planar'' =
      (if py_sum (f0, f1, f2) \<noteq> 1 then Inl (under_defined j)
       else if f0 then Inr (Some (1, 0, 0), Some (Lim4 (min_y c) (max_y c) (min_z c) (max_z c)))
       else if f1 then Inr (Some (0, 1, 0), Some (Lim4 (min_x c) (max_x c) (min_z c) (max_z c)))
       else Inr (Some (0, 0, 1), Some (Lim4 (min_x c) (max_x c) (min_y c) (max_y c))))"
    unfolding loc_branch_def c1 option.case f prod.case ud
    by (auto simp add: py_sum_simps)
  have gj: "getJointConstraints j h = bindE (loc_branch j1 ''planar'') (\<lambda>res. Inr (res, j1, h1))"
    unfolding getJointConstraints_def assms bindE_Inr prod.case
    by (cases crot) simp_all
  show ?thesis
    using c by (simp add: gj lb f)
qed

theorem planar_extraction_witness:
  "getJointConstraints planar_link host0
     = Inr ((Some (0, 1, 0), Some (Lim4 0 0 0 0)), planar_link, host0)"
proof -
  let ?l = "loc_planar (fresh host_default ''LIMIT_LOCATION'')"
  have mm: "min_x ?l = 0" "max_x ?l = 0" "min_z ?l = 0" "max_z ?l = 0"
    by (simp_all add: loc_planar_def fresh_def host_default_def)
  show ?thesis
    using planar_extraction [OF planar_link_facts(1)]
    by (simp add: planar_link_facts(2) planar_link_facts(3) py_sum_simps mm)
qed

section \<open>The operators' metadata\<close>

lemma setJointConstraints_props:
  assumes "k \<noteq> ''joint/type''"
  shows "\<exists>j1 h1. setJointConstraints api j T lo up h = Inr (j1, h1) \<and> props j1 k = props j k"
proof (cases "phobostype j = ''link''")
  case True
  then show ?thesis using assms by (simp add: set_link)
next
  case False
  then show ?thesis by (simp add: set_nonlink)
qed

lemma define_step_fixed:
  assumes "joint_type op = ''fixed''"
  shows "\<exists>l' h'. define_step api op lo up link h = Inr (l', h')
           \<and> props l' ''joint/maxeffort'' = props link ''joint/maxeffort''
           \<and> props l' ''joint/maxvelocity'' = props link ''joint/maxvelocity''"
proof -
  let ?h = "h\<lparr>active := name link\<rparr>"
  obtain j1 h1 where s: "setJointConstraints api link ''fixed'' lo up ?h = Inr (j1, h1)"
    and p: "props j1 = (if phobostype link = ''link''
                        then (props link)(''joint/type'' \<mapsto> PStr ''fixed'') else props link)"
    by (cases "phobostype link = ''link''") (simp_all add: set_link set_nonlink)
  show ?thesis
    unfolding define_step_def assms s bindE_Inr prod.case
    by (simp add: p Let_def)
qed

lemma define_loop_fixed:
  assumes "joint_type op = ''fixed''"
  shows "\<exists>ls' h'. define_loop api op lo up links h = Inr (ls', h')
           \<and> map (\<lambda>l. props l ''joint/maxeffort'') ls' = map (\<lambda>l. props l ''joint/maxeffort'') links
           \<and> map (\<lambda>l. props l ''joint/maxvelocity'') ls' = map (\<lambda>l. props l ''joint/maxvelocity'') links"
proof (induction links arbitrary: h)
  case Nil
  show ?case by simp
next
  case (Cons link links)
  obtain l' h' where st: "define_step api op lo up link h = Inr (l', h')"
    and pe: "props l' ''joint/maxeffort'' = props link ''joint/maxeffort''"
    and pv: "props l' ''joint/maxvelocity'' = props link ''joint/maxvelocity''"
    using define_step_fixed [OF assms, of api lo up link h] by blast
  obtain ls' h'' where lp: "define_loop api op lo up links h' = Inr (ls', h'')"
    and me: "map (\<lambda>l. props l ''joint/maxeffort'') ls' = map (\<lambda>l. props l ''joint/maxeffort'') links"
    and mv: "map (\<lambda>l. props l ''joint/maxvelocity'') ls' = map (\<lambda>l. props l ''joint/maxvelocity'') links"
    using Cons.IH [of h'] by blast
  show ?case
    by (simp add: st lp pe pv me mv)
qed

text \<open>
  C7: a batch run of \<open>DefineJointConstraintsOperator.execute\<close> with joint type fixed
  returns normally and leaves \<open>joint/maxeffort\<close> and \<open>joint/maxvelocity\<close> of every
  selected object as they were (absent keys stay absent), whatever the operator's
  \<open>maxeffort\<close> and \<open>maxvelocity\<close> are.
\<close>

theorem fixed_never_gets_effort_velocity:
  assumes "joint_type op = ''fixed''"
  shows "\<exists>ls' h'. define_execute api op selected h = Inr (ls', h')
           \<and> map (\<lambda>l. props l ''joint/maxeffort'') ls' = map (\<lambda>l. props l ''joint/maxeffort'') selected
           \<and> map (\<lambda>l. props l ''joint/maxvelocity'') ls' = map (\<lambda>l. props l ''joint/maxvelocity'') selected"
  unfolding define_execute_def Let_def
  using define_loop_fixed [OF assms] by blast

theorem fixed_never_gets_effort_velocity_witness:
  "\<exists>ls' h'. define_execute blender fixed_op [link0, link1] host0 = Inr (ls', h')
           \<and> map (\<lambda>l. props l ''joint/maxeffort'') ls' = [None, None]
           \<and> map (\<lambda>l. props l ''joint/maxvelocity'') ls' = [None, None]"
proof -
  have a: "joint_type fixed_op = ''fixed''" by (simp add: fixed_op_def)
  show ?thesis
    using fixed_never_gets_effort_velocity [OF a, of blender "[link0, link1]" host0]
    by (simp add: link0_def link1_def)
qed

text \<open>Bounds on \<open>pi\<close> from Machin's formula and the alternating series of arctan.\<close>

lemma arctan_partial_sums:
  fixes x :: real
  assumes "0 \<le> x" and "x \<le> 1"
  shows "(\<Sum>k<2 * n. (- 1) ^ k * (1 / real (k * 2 + 1) * x ^ (k * 2 + 1))) \<le> arctan x"
    and "arctan x \<le> (\<Sum>k<2 * n + 1. (- 1) ^ k * (1 / real (k * 2 + 1) * x ^ (k * 2 + 1)))"
proof -
  let ?a = "\<lambda>k. 1 / real (k * 2 + 1) * x ^ (k * 2 + 1)"
  have ax: "\<bar>x\<bar> \<le> 1" using assms by simp
  have z: "?a \<longlonglongrightarrow> 0"
    by (rule zeroseq_arctan_series [OF ax])
  have p: "0 \<le> ?a k" for k
    using assms by simp
  have m: "?a (Suc k) \<le> ?a k" for k
  proof (rule mult_mono)
    show "1 / real (Suc k * 2 + 1) \<le> 1 / real (k * 2 + 1)"
      by (rule frac_le) simp_all
    show "x ^ (Suc k * 2 + 1) \<le> x ^ (k * 2 + 1)"
      by (rule power_decreasing) (simp_all add: assms)
    show "0 \<le> 1 / real (k * 2 + 1)" by simp
    show "0 \<le> x ^ (Suc k * 2 + 1)" using assms by simp
  qed
  have s: "arctan x = (\<Sum>k. (- 1) ^ k * ?a k)"
    by (rule arctan_series [OF ax])
  show "(\<Sum>k<2 * n. (- 1) ^ k * ?a k) \<le> arctan x"
    unfolding s by (rule summable_Leibniz'(2) [OF z p m])
  show "arctan x \<le> (\<Sum>k<2 * n + 1. (- 1) ^ k * ?a k)"
    unfolding s by (rule summable_Leibniz'(4) [OF z p m])
qed

lemma pi_machin: "pi = 16 * arctan (1 / 5) - 4 * arctan (1 / 239)"
  using machin by simp

lemma pi_lower: "314159 / 100000 < pi"
proof -
  have a: "(\<Sum>k<2 * 2. (- 1) ^ k * (1 / real (k * 2 + 1) * (1 / 5) ^ (k * 2 + 1))) \<le> arctan (1 / 5)"
    by (rule arctan_partial_sums(1)) simp_all
  have b: "arctan (1 / 239) \<le> (\<Sum>k<2 * 0 + 1. (- 1) ^ k * (1 / real (k * 2 + 1) * (1 / 239) ^ (k * 2 + 1)))"
    by (rule arctan_partial_sums(2)) simp_all
  have a': "(1 / 5 - 1 / 375 + 1 / 15625 - 1 / 546875 :: real) \<le> arctan (1 / 5)"
    using a by (simp add: eval_nat_numeral)
  have b': "arctan (1 / 239) \<le> (1 / 239 :: real)"
    using b by simp
  show ?thesis
    unfolding pi_machin using a' b' by simp
qed

lemma pi_upper: "pi < 31416 / 10000"
proof -
  have a: "arctan (1 / 5) \<le> (\<Sum>k<2 * 2 + 1. (- 1) ^ k * (1 / real (k * 2 + 1) * (1 / 5) ^ (k * 2 + 1)))"
    by (rule arctan_partial_sums(2)) simp_all
  have b: "(\<Sum>k<2 * 1. (- 1) ^ k * (1 / real (k * 2 + 1) * (1 / 239) ^ (k * 2 + 1))) \<le> arctan (1 / 239)"
    by (rule arctan_partial_sums(1)) simp_all
  have a': "arctan (1 / 5) \<le> (1 / 5 - 1 / 375 + 1 / 15625 - 1 / 546875 + 1 / 17578125 :: real)"
    using a by (simp add: eval_nat_numeral)
  have b': "(1 / 239 - 1 / 40955757 :: real) \<le> arctan (1 / 239)"
    using b by (simp add: eval_nat_numeral)
  show ?thesis
    unfolding pi_machin using a' b' by simp
qed

text \<open>
  C8: for every selected object whose \<open>phobostype\<close> is link,
  \<open>AttachMotorOperator.execute\<close> stores \<open>motor/maxSpeed = vmax * 2 * pi\<close> and
  \<open>motor/maxEffort = taumax\<close>; with motor type PID it stores P, I and D under
  \<open>motor/p\<close>, \<open>motor/i\<close>, \<open>motor/d\<close>, and with any other motor type it leaves those
  three keys as they were. With vmax = 1 and taumax = 2 the stored speed is within 0.00001
  of 6.28319 and the stored effort is 2.
\<close>

theorem attach_motor_writes:
  assumes "i < length selected" and "phobostype (selected ! i) = ''link''"
  shows "props (motor_execute op selected ! i) ''motor/maxSpeed'' = Some (PFloat (vmax op * 2 * pi))
       \<and> props (motor_execute op selected ! i) ''motor/maxEffort'' = Some (PFloat (taumax op))
       \<and> (if motortype op = ''PID''
          then props (motor_execute op selected ! i) ''motor/p'' = Some (PFloat (P op))
             \<and> props (motor_execute op selected ! i) ''motor/i'' = Some (PFloat (I op))
             \<and> props (motor_execute op selected ! i) ''motor/d'' = Some (PFloat (D op))
          else props (motor_execute op selected ! i) ''motor/p'' = props (selected ! i) ''motor/p''
             \<and> props (motor_execute op selected ! i) ''motor/i'' = props (selected ! i) ''motor/i''
             \<and> props (motor_execute op selected ! i) ''motor/d'' = props (selected ! i) ''motor/d'')"
  using assms by (simp add: motor_execute_def motor_step_def Let_def)

theorem attach_motor_writes_witness:
  "props (motor_execute pid_op [link0] ! 0) ''motor/maxSpeed'' = Some (PFloat (vmax pid_op * 2 * pi))
   \<and> \<bar>vmax pid_op * 2 * pi - 628319 / 100000\<bar> < 1 / 100000
   \<and> props (motor_execute pid_op [link0] ! 0) ''motor/maxEffort'' = Some (PFloat 2)
   \<and> props (motor_execute pid_op [link0] ! 0) ''motor/p'' = Some (PFloat 3)
   \<and> props (motor_execute pid_op [link0] ! 0) ''motor/i'' = Some (PFloat 4)
   \<and> props (motor_execute pid_op [link0] ! 0) ''motor/d'' = Some (PFloat 5)"
proof -
  have a: "(0::nat) < length [link0]" by simp
  have b: "phobostype ([link0] ! 0) = ''link''" by (simp add: link0_def)
  have v: "vmax pid_op = 1" "taumax pid_op = 2" "P pid_op = 3" "I pid_op = 4" "D pid_op = 5"
    "motortype pid_op = ''PID''"
    by (simp_all add: pid_op_def)
  have n1: "1 * 2 * pi - 628319 / 100000 < 1 / 100000"
    using pi_upper by simp
  have n2: "- (1 / 100000) < 1 * 2 * pi - 628319 / 100000"
    using pi_lower by simp
  have n: "\<bar>vmax pid_op * 2 * pi - 628319 / 100000\<bar> < 1 / 100000"
    unfolding v abs_less_iff using n1 n2 by linarith
  show ?thesis
    using attach_motor_writes [OF a b, of pid_op] n by (simp add: v)
qed

end
